theory Spec2Isabelle
  imports Complex_Main
begin

section \<open>The environment of the script\<close>

text \<open>
  \<^verbatim>\<open>scripts/analysis.py\<close> is glue code: it walks a dataset, calls an image-processing
  library and asks the operating system for directories and files. Neither the
  operating system nor the libraries are part of the repository, so both are parameters
  of the model. The effectful calls (\<^verbatim>\<open>os\<close>, \<^verbatim>\<open>open\<close>, \<^verbatim>\<open>logging\<close>, the data manager and
  the dataset reader) are the fields of a record \<open>env\<close> over an arbitrary type \<open>'w\<close> of
  states of the outside world: a call takes the state and returns its answer, or the
  exception it raises, together with the new state. Nothing is assumed about what the
  calls answer. Exceptions are values: an operation of the script returns
  \<open>(exn + result, world)\<close>, with \<open>Inl\<close> for a raised exception.
\<close>

type_synonym path = string

datatype errno = EEXIST | ENOENT | ENOTDIR | EISDIR | EACCES

datatype exn =
    OSError errno path
  | KeyError string
  | SystemExit nat string
  | LibraryError string

datatype loglevel = DEBUG | INFO

text \<open>Arrays are nested lists: a grey-scale image of numbers, a binary image, an array
  of component labels, an RGB canvas.\<close>

type_synonym image = "real list list"
type_synonym binimage = "bool list list"
type_synonym segmentation = "nat list list"
type_synonym region = "bool list list"
type_synonym color = "nat \<times> nat \<times> nat"
type_synonym canvas = "color list list"

text \<open>A microscopy collection gives its series and the image of each; a dataset gives
  its name, its identifiers and, for an identifier, the path of the item's content and
  its properties (a dictionary).\<close>

record collection =
  coll_series :: "int list"
  coll_image :: "int \<Rightarrow> image"

record dataset =
  ds_name :: string
  ds_identifiers :: "string list"
  item_content_abspath :: "string \<Rightarrow> path"
  item_properties :: "string \<Rightarrow> (string \<rightharpoonup> string)"

text \<open>
  The calls into the outside world, in the order in which they appear below:
  \<^verbatim>\<open>os.path.isdir\<close>, \<^verbatim>\<open>os.mkdir\<close>, \<^verbatim>\<open>os.makedirs\<close>; \<^verbatim>\<open>open(p, "wb")\<close> followed by one
  \<^verbatim>\<open>write\<close>; the save of an intermediate image by the \<^verbatim>\<open>@transformation\<close> decorator
  (the path and the name of the decorated function); \<^verbatim>\<open>logging.basicConfig\<close> with a file
  name and a level; \<^verbatim>\<open>logging.info\<close>, which does not raise; the constructor
  \<^verbatim>\<open>FileBackend(directory)\<close>; \<^verbatim>\<open>DataManager(backend).load(file)\<close>; and
  \<^verbatim>\<open>DataSet.from_uri(directory)\<close>.
\<close>

record 'w env =
  os_path_isdir :: "path \<Rightarrow> 'w \<Rightarrow> bool \<times> 'w"
  os_mkdir :: "path \<Rightarrow> 'w \<Rightarrow> exn option \<times> 'w"
  os_makedirs :: "path \<Rightarrow> 'w \<Rightarrow> exn option \<times> 'w"
  open_wb_write :: "path \<Rightarrow> nat list \<Rightarrow> 'w \<Rightarrow> exn option \<times> 'w"
  save_image :: "path \<Rightarrow> string \<Rightarrow> 'w \<Rightarrow> exn option \<times> 'w"
  logging_basicConfig :: "path \<Rightarrow> loglevel \<Rightarrow> 'w \<Rightarrow> exn option \<times> 'w"
  logging_info :: "string \<Rightarrow> 'w \<Rightarrow> 'w"
  FileBackend :: "path \<Rightarrow> 'w \<Rightarrow> exn option \<times> 'w"
  DataManager_load :: "path \<Rightarrow> path \<Rightarrow> 'w \<Rightarrow> (exn + collection) \<times> 'w"
  DataSet_from_uri :: "path \<Rightarrow> 'w \<Rightarrow> (exn + dataset) \<times> 'w"

text \<open>
  The state a run works on: the class attributes \<^verbatim>\<open>AutoName.count\<close>,
  \<^verbatim>\<open>AutoName.directory\<close> and \<^verbatim>\<open>AutoWrite.on\<close> of the imaging library, which the script
  and the decorator read and write, and the state of the outside world.
\<close>

record 'w world =
  AutoName_count :: nat
  AutoName_directory :: "path option"
  AutoWrite_on :: bool
  outside :: 'w

type_synonym ('a, 'w) result = "(exn + 'a) \<times> 'w world"

text \<open>Sequencing: an exception of the first operation skips the rest.\<close>

definition then_do ::
  "('a, 'w) result \<Rightarrow> ('a \<Rightarrow> 'w world \<Rightarrow> ('b, 'w) result) \<Rightarrow> ('b, 'w) result" where
  "then_do m f = (case m of (Inl exc, w) \<Rightarrow> (Inl exc, w) | (Inr a, w) \<Rightarrow> f a w)"

text \<open>A call that may raise, a call that answers or raises, and a query, run on the
  outside world of a state.\<close>

definition call :: "('w \<Rightarrow> exn option \<times> 'w) \<Rightarrow> 'w world \<Rightarrow> (unit, 'w) result" where
  "call c w =
     (case c (outside w) of
        (None, s) \<Rightarrow> (Inr (), w\<lparr>outside := s\<rparr>)
      | (Some exc, s) \<Rightarrow> (Inl exc, w\<lparr>outside := s\<rparr>))"

definition call_value :: "('w \<Rightarrow> (exn + 'a) \<times> 'w) \<Rightarrow> 'w world \<Rightarrow> ('a, 'w) result" where
  "call_value c w = (case c (outside w) of (r, s) \<Rightarrow> (r, w\<lparr>outside := s\<rparr>))"

definition query :: "('w \<Rightarrow> 'a \<times> 'w) \<Rightarrow> 'w world \<Rightarrow> ('a, 'w) result" where
  "query c w = (case c (outside w) of (a, s) \<Rightarrow> (Inr a, w\<lparr>outside := s\<rparr>))"

subsection \<open>Paths\<close>

text \<open>\<^verbatim>\<open>os.path.join(a, b)\<close> of \<^verbatim>\<open>posixpath\<close>: an absolute \<open>b\<close> replaces \<open>a\<close>.\<close>

definition os_path_join :: "path \<Rightarrow> path \<Rightarrow> path" where
  "os_path_join a b =
     (if b \<noteq> [] \<and> hd b = CHR ''/'' then b
      else if a = [] \<or> last a = CHR ''/'' then a @ b
      else a @ ''/'' @ b)"


section \<open>Directory creation\<close>

text \<open>
  \<^verbatim>\<open>
  def safe_mkdir(directory):
      try:
          os.makedirs(directory)
      except OSError as exc:
          if exc.errno == errno.EEXIST and os.path.isdir(directory):
              pass
          else:
              raise
  \<close>
  Only an \<^verbatim>\<open>OSError\<close> is caught, and \<^verbatim>\<open>os.path.isdir\<close> is asked only when its errno is
  \<^verbatim>\<open>EEXIST\<close>.
\<close>

definition safe_mkdir :: "'w env \<Rightarrow> path \<Rightarrow> 'w world \<Rightarrow> (unit, 'w) result" where
  "safe_mkdir E directory w =
     (case call (os_makedirs E directory) w of
        (Inr u, w1) \<Rightarrow> (Inr (), w1)
      | (Inl (OSError e p), w1) \<Rightarrow>
          if e = EEXIST then
            (case query (os_path_isdir E directory) w1 of
               (Inr True, w2) \<Rightarrow> (Inr (), w2)
             | (r, w2) \<Rightarrow> (Inl (OSError e p), w2))
          else (Inl (OSError e p), w1)
      | (Inl exc, w1) \<Rightarrow> (Inl exc, w1))"

text \<open>
  \<^verbatim>\<open>
  def item_output_path(output_directory, rel_path):
      abs_path = os.path.join(output_directory, rel_path)
      safe_mkdir(abs_path)
      return abs_path
  \<close>
\<close>

definition item_output_path ::
  "'w env \<Rightarrow> path \<Rightarrow> path \<Rightarrow> 'w world \<Rightarrow> (path, 'w) result" where
  "item_output_path E output_directory rel_path w =
     (let abs_path = os_path_join output_directory rel_path in
      then_do (safe_mkdir E abs_path w) (\<lambda>u w. (Inr abs_path, w)))"

section \<open>The imaging library\<close>

text \<open>
  The functions of \<^verbatim>\<open>jicbioimage\<close> and \<^verbatim>\<open>skimage\<close> that compute on images are
  the fields of a record \<open>lib\<close>, about which nothing is assumed beyond their types.
\<close>

record lib =
  normalise :: "image \<Rightarrow> image"
  from_grayscale :: "image \<Rightarrow> canvas"
  smooth_gaussian :: "image \<Rightarrow> real \<Rightarrow> image"
  erode_binary :: "binimage \<Rightarrow> binimage"
  remove_small_objects :: "binimage \<Rightarrow> nat \<Rightarrow> binimage"
  disk :: "nat \<Rightarrow> nat list list"
  dilate_binary :: "binimage \<Rightarrow> nat list list \<Rightarrow> binimage"
  connected_components :: "binimage \<Rightarrow> nat \<Rightarrow> segmentation"
  identifiers :: "segmentation \<Rightarrow> nat list"
  region_by_identifier :: "segmentation \<Rightarrow> nat \<Rightarrow> region"
  pretty_color_from_identifier :: "nat \<Rightarrow> color"
  convex_hull :: "region \<Rightarrow> region"
  inner :: "region \<Rightarrow> region"
  border :: "region \<Rightarrow> region"
  dilate :: "region \<Rightarrow> region"
  mask_region :: "canvas \<Rightarrow> region \<Rightarrow> color \<Rightarrow> canvas"
  png :: "canvas \<Rightarrow> nat list"

subsection \<open>Formatting\<close>

text \<open>\<^verbatim>\<open>"{:03d}".format(n)\<close>: the decimal digits of \<open>n\<close>, with a minus sign when it is
  negative, padded with zeros after the sign to a width of three characters.\<close>

definition digit_char :: "nat \<Rightarrow> char" where
  "digit_char d = char_of (48 + d)"

fun decimal :: "nat \<Rightarrow> string" where
  "decimal n = (if n < 10 then [digit_char n] else decimal (n div 10) @ [digit_char (n mod 10)])"

declare decimal.simps [simp del]

definition format_03d :: "int \<Rightarrow> string" where
  "format_03d n =
     (if n < 0 then CHR ''-'' # replicate (2 - length (decimal (nat (- n)))) CHR ''0'' @ decimal (nat (- n))
      else replicate (3 - length (decimal (nat n))) CHR ''0'' @ decimal (nat n))"


subsection \<open>Automatic names and the transformation decorator\<close>

text \<open>
  The script sets \<^verbatim>\<open>AutoName.prefix_format = "{:03d}_"\<close>. \<^verbatim>\<open>AutoName.name(func)\<close>
  increments the counter and returns the counter's prefix, the function's name and
  \<^verbatim>\<open>.png\<close>, joined to \<^verbatim>\<open>AutoName.directory\<close> when that is set.
\<close>

definition AutoName_name :: "path option \<Rightarrow> nat \<Rightarrow> string \<Rightarrow> path" where
  "AutoName_name directory count func_name =
     (let fname = format_03d (int count) @ ''_'' @ func_name @ ''.png'' in
      case directory of None \<Rightarrow> fname | Some d \<Rightarrow> os_path_join d fname)"

text \<open>
  A function decorated with \<^verbatim>\<open>@transformation\<close> returns what the function returns;
  when \<^verbatim>\<open>AutoWrite.on\<close> is set the decorator also saves the result as an image under
  the next automatic name.
\<close>

definition transformation ::
  "'w env \<Rightarrow> string \<Rightarrow> 'a \<Rightarrow> 'w world \<Rightarrow> ('a, 'w) result" where
  "transformation E func_name res w =
     (if AutoWrite_on w then
        (let w1 = w\<lparr>AutoName_count := AutoName_count w + 1\<rparr>;
             fpath = AutoName_name (AutoName_directory w1) (AutoName_count w1) func_name in
         then_do (call (save_image E fpath func_name) w1) (\<lambda>u w2. (Inr res, w2)))
      else (Inr res, w))"

section \<open>The analysis of one image\<close>

text \<open>
  \<^verbatim>\<open>
  @transformation
  def threshold_abs(image, cutoff):
      return image > cutoff
  \<close>
  The comparison of an array with a number is taken pixel by pixel.
\<close>

definition greater_than :: "image \<Rightarrow> real \<Rightarrow> binimage" where
  "greater_than img cutoff = map (map (\<lambda>v. v > cutoff)) img"

definition threshold_abs ::
  "'w env \<Rightarrow> image \<Rightarrow> real \<Rightarrow> 'w world \<Rightarrow> (binimage, 'w) result" where
  "threshold_abs E img cutoff = transformation E ''threshold_abs'' (greater_than img cutoff)"

text \<open>\<^verbatim>\<open>array * 255\<close> multiplies every pixel; \<^verbatim>\<open>astype(float)\<close> leaves the values of an
  array of floats as they are.\<close>

definition times_scalar :: "image \<Rightarrow> real \<Rightarrow> image" where
  "times_scalar img k = map (map (\<lambda>v. v * k)) img"

definition astype_float :: "image \<Rightarrow> image" where
  "astype_float img = img"

text \<open>
  The loop over the components:
  \<^verbatim>\<open>
  for i in segmentation.identifiers:
      color = pretty_color_from_identifier(i)
      region = segmentation.region_by_identifier(i)
      convex_hull = region.convex_hull
      outline = convex_hull.inner.border.dilate()
      canvas.mask_region(outline, color=color)
  \<close>
\<close>

fun outline_components :: "lib \<Rightarrow> segmentation \<Rightarrow> nat list \<Rightarrow> canvas \<Rightarrow> canvas" where
  "outline_components L segmentation [] canvas = canvas"
| "outline_components L segmentation (i # rest) canvas =
     (let color = pretty_color_from_identifier L i;
          region = region_by_identifier L segmentation i;
          region_hull = convex_hull L region;
          outline = dilate L (border L (inner L region_hull))
      in outline_components L segmentation rest (mask_region L canvas outline color))"

text \<open>
  \<^verbatim>\<open>
  def analyse_image(image):
      image = normalise(image) * 255
      canvas = AnnotatedImage.from_grayscale(image)
      image = smooth_gaussian(image.astype(float), 5)
      image = threshold_abs(image, 30)
      image = erode_binary(image)
      image = remove_small_objects(image, 5)
      salem = skimage.morphology.disk(2)
      image = dilate_binary(image, salem)
      segmentation = connected_components(image, background=0)
      for i in segmentation.identifiers: ...
      return canvas
  \<close>
  The five library steps are decorated transformations, like \<open>threshold_abs\<close>.
\<close>

definition analyse_image :: "'w env \<Rightarrow> lib \<Rightarrow> image \<Rightarrow> 'w world \<Rightarrow> (canvas, 'w) result" where
  "analyse_image E L image0 w =
     (let image1 = times_scalar (normalise L image0) 255;
          canvas = from_grayscale L image1
      in
      then_do (transformation E ''smooth_gaussian'' (smooth_gaussian L (astype_float image1) 5) w)
        (\<lambda>image2 w.
      then_do (threshold_abs E image2 30 w)
        (\<lambda>image3 w.
      then_do (transformation E ''erode_binary'' (erode_binary L image3) w)
        (\<lambda>image4 w.
      then_do (transformation E ''remove_small_objects'' (remove_small_objects L image4 5) w)
        (\<lambda>image5 w.
      let salem = disk L 2 in
      then_do (transformation E ''dilate_binary'' (dilate_binary L image5 salem) w)
        (\<lambda>image6 w.
      then_do (transformation E ''connected_components'' (connected_components L image6 0) w)
        (\<lambda>segmentation w.
      (Inr (outline_components L segmentation (identifiers L segmentation) canvas), w))))))))"

section \<open>Files and datasets\<close>

text \<open>
  \<^verbatim>\<open>
  def get_microscopy_collection(input_file):
      data_dir = "output"
      if not os.path.isdir(data_dir):
          os.mkdir(data_dir)
      backend_dir = os.path.join(data_dir, '.backend')
      file_backend = FileBackend(backend_dir)
      data_manager = DataManager(file_backend)
      microscopy_collection = data_manager.load(input_file)
      return microscopy_collection
  \<close>
\<close>

definition get_microscopy_collection ::
  "'w env \<Rightarrow> path \<Rightarrow> 'w world \<Rightarrow> (collection, 'w) result" where
  "get_microscopy_collection E input_file w =
     (let data_dir = ''output'' in
      then_do (query (os_path_isdir E data_dir) w)
        (\<lambda>is_dir w.
      then_do (if \<not> is_dir then call (os_mkdir E data_dir) w else (Inr (), w))
        (\<lambda>u w.
      let backend_dir = os_path_join data_dir ''.backend'' in
      then_do (call (FileBackend E backend_dir) w)
        (\<lambda>u w.
      call_value (DataManager_load E backend_dir input_file) w))))"

text \<open>
  \<^verbatim>\<open>
  def analyse_file(fpath, output_directory):
      logging.info("Analysing file: {}".format(fpath))
      AutoName.directory = output_directory
      microscopy_collection = get_microscopy_collection(fpath)
      for s in microscopy_collection.series:
          image = microscopy_collection.image(s)
          annotation = analyse_image(image)
          annotation_file_name = os.path.join(
              output_directory, "series_{:03d}_annotation.png".format(s))
          with open(annotation_file_name, "wb") as fh:
              fh.write(annotation.png())
  \<close>
\<close>

definition annotation_file_name :: "path \<Rightarrow> int \<Rightarrow> path" where
  "annotation_file_name output_directory s =
     os_path_join output_directory (''series_'' @ format_03d s @ ''_annotation.png'')"

fun analyse_series ::
  "'w env \<Rightarrow> lib \<Rightarrow> collection \<Rightarrow> path \<Rightarrow> int list \<Rightarrow> 'w world \<Rightarrow> (unit, 'w) result" where
  "analyse_series E L microscopy_collection output_directory [] w = (Inr (), w)"
| "analyse_series E L microscopy_collection output_directory (s # rest) w =
     (let img = coll_image microscopy_collection s in
      then_do (analyse_image E L img w)
        (\<lambda>annotation w.
      then_do (call (open_wb_write E (annotation_file_name output_directory s) (png L annotation)) w)
        (\<lambda>u w. analyse_series E L microscopy_collection output_directory rest w)))"

definition analyse_file ::
  "'w env \<Rightarrow> lib \<Rightarrow> path \<Rightarrow> path \<Rightarrow> 'w world \<Rightarrow> (unit, 'w) result" where
  "analyse_file E L fpath output_directory w =
     then_do (query (\<lambda>s. ((), logging_info E (''Analysing file: '' @ fpath) s)) w)
       (\<lambda>u w.
     let w = w\<lparr>AutoName_directory := Some output_directory\<rparr> in
     then_do (get_microscopy_collection E fpath w)
       (\<lambda>microscopy_collection w.
     analyse_series E L microscopy_collection output_directory
       (coll_series microscopy_collection) w))"

text \<open>
  \<^verbatim>\<open>
  def analyse_dataset(dataset_dir, output_dir):
      dataset = DataSet.from_uri(dataset_dir)
      logging.info("Analysing items in dataset: {}".format(dataset.name))
      for i in dataset.identifiers:
          data_item_abspath = dataset.item_content_abspath(i)
          item_info = dataset.item_properties(i)
          specific_output_dir = item_output_path(output_dir, item_info["relpath"])
          analyse_file(data_item_abspath, specific_output_dir)
  \<close>
  A dictionary without the key \<^verbatim>\<open>"relpath"\<close> raises \<^verbatim>\<open>KeyError\<close>.
\<close>

fun analyse_items ::
  "'w env \<Rightarrow> lib \<Rightarrow> dataset \<Rightarrow> path \<Rightarrow> string list \<Rightarrow> 'w world \<Rightarrow> (unit, 'w) result" where
  "analyse_items E L dataset output_dir [] w = (Inr (), w)"
| "analyse_items E L dataset output_dir (i # rest) w =
     (let data_item_abspath = item_content_abspath dataset i;
          item_info = item_properties dataset i
      in
      case item_info ''relpath'' of
        None \<Rightarrow> (Inl (KeyError ''relpath''), w)
      | Some rel_path \<Rightarrow>
          then_do (item_output_path E output_dir rel_path w)
            (\<lambda>specific_output_dir w.
          then_do (analyse_file E L data_item_abspath specific_output_dir w)
            (\<lambda>u w. analyse_items E L dataset output_dir rest w)))"

definition analyse_dataset ::
  "'w env \<Rightarrow> lib \<Rightarrow> path \<Rightarrow> path \<Rightarrow> 'w world \<Rightarrow> (unit, 'w) result" where
  "analyse_dataset E L dataset_dir output_dir w =
     then_do (call_value (DataSet_from_uri E dataset_dir) w)
       (\<lambda>dataset w.
     then_do (query (\<lambda>s. ((), logging_info E (''Analysing items in dataset: '' @ ds_name dataset) s)) w)
       (\<lambda>u w. analyse_items E L dataset output_dir (ds_identifiers dataset) w))"

section \<open>The entry point\<close>

text \<open>
  The parsed command line: the two positional arguments and the \<^verbatim>\<open>--debug\<close> flag;
  \<open>script_file\<close> is the value of \<^verbatim>\<open>__file__\<close>. \<^verbatim>\<open>parser.error(msg)\<close> prints the message and
  exits with status 2.
  \<^verbatim>\<open>
  def main():
      ...
      if not os.path.isdir(args.output_dir):
          os.mkdir(args.output_dir)
      AutoName.directory = args.output_dir
      if not args.debug:
          AutoWrite.on = False
      log_fname = "audit.log"
      log_fpath = os.path.join(args.output_dir, log_fname)
      logging_level = logging.INFO
      if args.debug:
          logging_level = logging.DEBUG
      logging.basicConfig(filename=log_fpath, level=logging_level)
      logging.info("Script name: {}".format(__file__))
      logging.info("Script version: {}".format(__version__))
      if os.path.isdir(args.input_dataset):
          analyse_dataset(args.input_dataset, args.output_dir)
      else:
          parser.error("{} not a directory".format(args.input_dataset))
  \<close>
\<close>

record args =
  input_dataset :: path
  output_dir :: path
  debug :: bool
  script_file :: path

definition version :: string where
  "version = ''0.2.1''"

definition parser_error :: "string \<Rightarrow> 'w world \<Rightarrow> (unit, 'w) result" where
  "parser_error msg w = (Inl (SystemExit 2 msg), w)"

definition main :: "'w env \<Rightarrow> lib \<Rightarrow> args \<Rightarrow> 'w world \<Rightarrow> (unit, 'w) result" where
  "main E L a w =
     then_do (query (os_path_isdir E (output_dir a)) w)
       (\<lambda>is_dir w.
     then_do (if \<not> is_dir then call (os_mkdir E (output_dir a)) w else (Inr (), w))
       (\<lambda>u w.
     let w = w\<lparr>AutoName_directory := Some (output_dir a)\<rparr>;
         w = (if \<not> debug a then w\<lparr>AutoWrite_on := False\<rparr> else w);
         log_fname = ''audit.log'';
         log_fpath = os_path_join (output_dir a) log_fname;
         logging_level = (if debug a then DEBUG else INFO)
     in
     then_do (call (logging_basicConfig E log_fpath logging_level) w)
       (\<lambda>u w.
     then_do (query (\<lambda>s. ((), logging_info E (''Script name: '' @ script_file a) s)) w)
       (\<lambda>u w.
     then_do (query (\<lambda>s. ((), logging_info E (''Script version: '' @ version) s)) w)
       (\<lambda>u w.
     then_do (query (os_path_isdir E (input_dataset a)) w)
       (\<lambda>is_dir w.
     if is_dir then analyse_dataset E L (input_dataset a) (output_dir a) w
     else parser_error (input_dataset a @ '' not a directory'') w))))))"

section \<open>What the analysis computes\<close>

text \<open>The label array and the canvas of \<open>analyse_image\<close> as functions of the image
  alone, with the decorators' writes left out.\<close>

definition segmentation_of :: "lib \<Rightarrow> image \<Rightarrow> segmentation" where
  "segmentation_of L image0 =
     (let image1 = times_scalar (normalise L image0) 255;
          image2 = smooth_gaussian L (astype_float image1) 5;
          image3 = greater_than image2 30;
          image4 = erode_binary L image3;
          image5 = remove_small_objects L image4 5;
          image6 = dilate_binary L image5 (disk L 2)
      in connected_components L image6 0)"

definition canvas_of :: "lib \<Rightarrow> image \<Rightarrow> canvas" where
  "canvas_of L image0 =
     outline_components L (segmentation_of L image0)
       (identifiers L (segmentation_of L image0))
       (from_grayscale L (times_scalar (normalise L image0) 255))"

section \<open>The pipeline as the specification describes it\<close>

text \<open>
  The specification calls the segmentation a fixed sequence of steps with fixed
  parameters. Here the sequence is data: a step transforms a grey-scale image, a binary
  image or a label array, and does not apply to a value of the wrong kind.
\<close>

datatype step =
    NormaliseScale real
  | SmoothGaussian real
  | ThresholdAbs real
  | ErodeBinary
  | RemoveSmallObjects nat
  | DilateBinaryDisk nat
  | ConnectedComponents nat

datatype stage = Gray image | Binary binimage | Labelled segmentation

fun apply_step :: "lib \<Rightarrow> step \<Rightarrow> stage \<Rightarrow> stage option" where
  "apply_step L (NormaliseScale k) (Gray g) = Some (Gray (map (map (\<lambda>v. v * k)) (normalise L g)))"
| "apply_step L (SmoothGaussian sigma) (Gray g) = Some (Gray (smooth_gaussian L g sigma))"
| "apply_step L (ThresholdAbs cutoff) (Gray g) = Some (Binary (map (map (\<lambda>v. cutoff < v)) g))"
| "apply_step L ErodeBinary (Binary b) = Some (Binary (erode_binary L b))"
| "apply_step L (RemoveSmallObjects n) (Binary b) = Some (Binary (remove_small_objects L b n))"
| "apply_step L (DilateBinaryDisk r) (Binary b) = Some (Binary (dilate_binary L b (disk L r)))"
| "apply_step L (ConnectedComponents bg) (Binary b) = Some (Labelled (connected_components L b bg))"
| "apply_step L _ _ = None"

fun run_steps :: "lib \<Rightarrow> step list \<Rightarrow> stage \<Rightarrow> stage option" where
  "run_steps L [] v = Some v"
| "run_steps L (s # ss) v =
     (case apply_step L s v of None \<Rightarrow> None | Some v' \<Rightarrow> run_steps L ss v')"

definition fixed_sequence :: "step list" where
  "fixed_sequence =
     [NormaliseScale 255, SmoothGaussian 5, ThresholdAbs 30, ErodeBinary,
      RemoveSmallObjects 5, DilateBinaryDisk 2, ConnectedComponents 0]"

text \<open>The outlines of a segmentation, one entry for each element of the identifiers
  in their order: the identifier, the dilated border of the interior of the convex hull
  of its region, and the colour of the identifier.\<close>

definition component_outlines :: "lib \<Rightarrow> segmentation \<Rightarrow> (nat \<times> region \<times> color) list" where
  "component_outlines L seg =
     map (\<lambda>i. (i, dilate L (border L (inner L (convex_hull L (region_by_identifier L seg i)))),
                pretty_color_from_identifier L i))
         (identifiers L seg)"

definition mask_all :: "lib \<Rightarrow> canvas \<Rightarrow> (nat \<times> region \<times> color) list \<Rightarrow> canvas" where
  "mask_all L cv outlines = foldl (\<lambda>c (i, r, col). mask_region L c r col) cv outlines"

section \<open>Observing a run\<close>

text \<open>
  What a run does to the outside world is the sequence of its calls. \<open>traced E\<close> is the
  environment \<open>E\<close> with a log: every call answers as in \<open>E\<close> and appends one event to
  the log, the call with its arguments and what came of it: it returned, it answered, or
  it raised an exception.
\<close>

datatype call =
    IsDir path
  | Mkdir path
  | Makedirs path
  | WriteFile path "nat list"
  | SaveImage path string
  | LogConfig path loglevel
  | LogInfo string
  | NewFileBackend path
  | Load path path
  | FromUri path

datatype outcome =
    Returned
  | Answered bool
  | Loaded collection
  | Opened dataset
  | Raised exn

type_synonym event = "call \<times> outcome"

definition logged ::
  "call \<Rightarrow> ('a \<Rightarrow> outcome) \<Rightarrow> ('w \<Rightarrow> 'a \<times> 'w) \<Rightarrow> 'w \<times> event list \<Rightarrow> 'a \<times> ('w \<times> event list)" where
  "logged c out f st = (case f (fst st) of (a, s) \<Rightarrow> (a, (s, snd st @ [(c, out a)])))"

definition returned :: "exn option \<Rightarrow> outcome" where
  "returned r = (case r of None \<Rightarrow> Returned | Some exc \<Rightarrow> Raised exc)"

definition traced :: "'w env \<Rightarrow> ('w \<times> event list) env" where
  "traced E =
     \<lparr>os_path_isdir = (\<lambda>p. logged (IsDir p) Answered (os_path_isdir E p)),
      os_mkdir = (\<lambda>p. logged (Mkdir p) returned (os_mkdir E p)),
      os_makedirs = (\<lambda>p. logged (Makedirs p) returned (os_makedirs E p)),
      open_wb_write = (\<lambda>p b. logged (WriteFile p b) returned (open_wb_write E p b)),
      save_image = (\<lambda>p n. logged (SaveImage p n) returned (save_image E p n)),
      logging_basicConfig = (\<lambda>p l. logged (LogConfig p l) returned (logging_basicConfig E p l)),
      logging_info = (\<lambda>m st. (logging_info E m (fst st), snd st @ [(LogInfo m, Returned)])),
      FileBackend = (\<lambda>p. logged (NewFileBackend p) returned (FileBackend E p)),
      DataManager_load = (\<lambda>b f. logged (Load b f) (case_sum Raised Loaded) (DataManager_load E b f)),
      DataSet_from_uri = (\<lambda>d. logged (FromUri d) (case_sum Raised Opened) (DataSet_from_uri E d))\<rparr>"

text \<open>The log of a state, and the parts of a log: the files opened for writing with
  what is written to them, the intermediate images saved, the directories asked of
  \<^verbatim>\<open>os.makedirs\<close> and of \<^verbatim>\<open>os.mkdir\<close>, the files given to the data manager with its
  cache directory, and the collections it answered.\<close>

definition trace :: "('w \<times> event list) world \<Rightarrow> event list" where
  "trace w = snd (outside w)"

fun writes :: "event list \<Rightarrow> (path \<times> nat list) list" where
  "writes [] = []"
| "writes ((WriteFile p b, out) # t) = (p, b) # writes t"
| "writes (e # t) = writes t"

fun saves :: "event list \<Rightarrow> (path \<times> string) list" where
  "saves [] = []"
| "saves ((SaveImage p n, out) # t) = (p, n) # saves t"
| "saves (e # t) = saves t"

fun makedirs_calls :: "event list \<Rightarrow> path list" where
  "makedirs_calls [] = []"
| "makedirs_calls ((Makedirs p, out) # t) = p # makedirs_calls t"
| "makedirs_calls (e # t) = makedirs_calls t"

fun mkdir_calls :: "event list \<Rightarrow> path list" where
  "mkdir_calls [] = []"
| "mkdir_calls ((Mkdir p, out) # t) = p # mkdir_calls t"
| "mkdir_calls (e # t) = mkdir_calls t"

fun loads :: "event list \<Rightarrow> (path \<times> path) list" where
  "loads [] = []"
| "loads ((Load b f, out) # t) = (b, f) # loads t"
| "loads (e # t) = loads t"

fun loaded :: "event list \<Rightarrow> collection list" where
  "loaded [] = []"
| "loaded ((c, Loaded coll) # t) = coll # loaded t"
| "loaded (e # t) = loaded t"

subsection \<open>Paths that lie under a directory\<close>

text \<open>
  The components of a path are what its slashes separate, without the empty ones and
  the dots. A path lies under a directory, as far as the two names tell, when both are
  absolute or both relative, the components of the directory begin those of the path
  and no component after them is \<^verbatim>\<open>..\<close>.
\<close>

fun split_slash :: "string \<Rightarrow> string list" where
  "split_slash [] = [[]]"
| "split_slash (c # cs) =
     (if c = CHR ''/'' then [] # split_slash cs
      else (case split_slash cs of [] \<Rightarrow> [[c]] | x # xs \<Rightarrow> (c # x) # xs))"

definition components :: "path \<Rightarrow> string list" where
  "components p = filter (\<lambda>c. c \<noteq> [] \<and> c \<noteq> ''.'') (split_slash p)"

definition is_absolute :: "path \<Rightarrow> bool" where
  "is_absolute p = (p \<noteq> [] \<and> hd p = CHR ''/'')"

definition under :: "path \<Rightarrow> path \<Rightarrow> bool" where
  "under d p =
     (is_absolute p = is_absolute d
      \<and> take (length (components d)) (components p) = components d
      \<and> ''..'' \<notin> set (drop (length (components d)) (components p)))"

subsection \<open>Names\<close>

text \<open>The automatic names: what the decorator may save to when the directory of the
  automatic names is \<open>d\<close>.\<close>

definition is_intermediate :: "path option \<Rightarrow> path \<Rightarrow> bool" where
  "is_intermediate d p = (\<exists>n func_name. p = AutoName_name d n func_name)"

text \<open>The number a string of decimal digits stands for.\<close>

definition digits_value :: "string \<Rightarrow> nat" where
  "digits_value s = foldl (\<lambda>a c. 10 * a + (of_char c - 48)) 0 s"

section \<open>A concrete environment and a concrete library\<close>

text \<open>
  The environment and the library on which the theorems below are exercised. The
  outside world is the set of its directories: \<^verbatim>\<open>os.mkdir\<close> and \<^verbatim>\<open>os.makedirs\<close> add
  one and raise \<^verbatim>\<open>EEXIST\<close> for one that is there, every other call succeeds. There are
  two datasets: \<open>data\<close> has one item, a file with two series, whose \<^verbatim>\<open>relpath\<close> is
  relative; the item of \<open>absdata\<close> has an absolute \<^verbatim>\<open>relpath\<close>.
\<close>

definition example_collection :: collection where
  "example_collection =
     \<lparr>coll_series = [0, 1],
      coll_image = (\<lambda>s. if s = 0 then [[0.2, 0.1]] else [[0.05]])\<rparr>"

definition example_dataset :: dataset where
  "example_dataset =
     \<lparr>ds_name = ''leaves'', ds_identifiers = [''id1''],
      item_content_abspath = (\<lambda>i. ''data/item.czi''),
      item_properties = (\<lambda>i. [''relpath'' \<mapsto> ''item.czi''])\<rparr>"

definition absolute_dataset :: dataset where
  "absolute_dataset =
     \<lparr>ds_name = ''leaves'', ds_identifiers = [''id1''],
      item_content_abspath = (\<lambda>i. ''data/item.czi''),
      item_properties = (\<lambda>i. [''relpath'' \<mapsto> ''/elsewhere''])\<rparr>"

definition simple_env :: "(path set) env" where
  "simple_env =
     \<lparr>os_path_isdir = (\<lambda>p s. (p \<in> s, s)),
      os_mkdir = (\<lambda>p s. if p \<in> s then (Some (OSError EEXIST p), s) else (None, insert p s)),
      os_makedirs = (\<lambda>p s. if p \<in> s then (Some (OSError EEXIST p), s) else (None, insert p s)),
      open_wb_write = (\<lambda>p b s. (None, s)),
      save_image = (\<lambda>p n s. (None, s)),
      logging_basicConfig = (\<lambda>p l s. (None, s)),
      logging_info = (\<lambda>m s. s),
      FileBackend = (\<lambda>p s. (None, insert p s)),
      DataManager_load = (\<lambda>b f s.
         (if f = ''data/item.czi'' then Inr example_collection
          else Inl (LibraryError ''unknown format''), s)),
      DataSet_from_uri = (\<lambda>d s.
         (if d = ''data'' then Inr example_dataset
          else if d = ''absdata'' then Inr absolute_dataset
          else Inl (LibraryError ''not a dataset''), s))\<rparr>"

text \<open>The state of a fresh interpreter (the automatic writes are on in the library)
  over a world with the given directories and an empty log.\<close>

definition fresh_world :: "path set \<Rightarrow> (path set \<times> event list) world" where
  "fresh_world ds =
     \<lparr>AutoName_count = 0, AutoName_directory = None, AutoWrite_on = True, outside = (ds, [])\<rparr>"

text \<open>A world in which \<open>out\<close> is a directory, and the same with the automatic writes
  off.\<close>

definition world_with_dir :: "(path set \<times> event list) world" where
  "world_with_dir = fresh_world {''out''}"

definition quiet_world :: "(path set \<times> event list) world" where
  "quiet_world = world_with_dir\<lparr>AutoWrite_on := False\<rparr>"

text \<open>
  A small library: smoothing and the morphological steps return their argument,
  labelling gives every set pixel the label 1, a region is the set of pixels of a label,
  masking paints the pixels of a region.
\<close>

definition example_lib :: lib where
  "example_lib =
     \<lparr>normalise = (\<lambda>g. g),
      from_grayscale = (\<lambda>g. map (map (\<lambda>v. (0, 0, 0))) g),
      smooth_gaussian = (\<lambda>g sigma. g),
      erode_binary = (\<lambda>b. b),
      remove_small_objects = (\<lambda>b n. b),
      disk = (\<lambda>r. [[1]]),
      dilate_binary = (\<lambda>b selem. b),
      connected_components = (\<lambda>b bg. map (map (\<lambda>x. if x then 1 else bg)) b),
      identifiers = (\<lambda>seg. remdups (filter (\<lambda>l. l \<noteq> 0) (concat seg))),
      region_by_identifier = (\<lambda>seg i. map (map (\<lambda>l. l = i)) seg),
      pretty_color_from_identifier = (\<lambda>i. (i, i, i)),
      convex_hull = (\<lambda>r. r),
      inner = (\<lambda>r. r),
      border = (\<lambda>r. r),
      dilate = (\<lambda>r. r),
      mask_region = (\<lambda>cv r col. map (\<lambda>(ps, ms). map (\<lambda>(p, m). if m then col else p) (zip ps ms)) (zip cv r)),
      png = (\<lambda>cv. concat (map (\<lambda>(r, g, b). [r, g, b]) (concat cv)))\<rparr>"

section \<open>Sequencing and exceptions\<close>

lemma then_do_Inl: "fst m = Inl exc \<Longrightarrow> fst (then_do m f) = Inl exc"
  by (cases m) (auto simp: then_do_def)

lemma then_do_raises: "fst m = Inl exc \<Longrightarrow> then_do m f = (Inl exc, snd m)"
  by (cases m) (auto simp: then_do_def)

lemma then_do_Inr: "m = (Inr a, w) \<Longrightarrow> then_do m f = f a w"
  by (simp add: then_do_def)

section \<open>The analysis of one image: what is computed\<close>

lemma then_do_Inr_elim:
  "then_do m f = (Inr c, w') \<Longrightarrow> \<exists>a w1. m = (Inr a, w1) \<and> f a w1 = (Inr c, w')"
  by (cases m) (auto simp: then_do_def split: sum.splits)

lemma transformation_off: "\<not> AutoWrite_on w \<Longrightarrow> transformation E n r w = (Inr r, w)"
  by (simp add: transformation_def)

lemma transformation_result: "transformation E n r w = (Inr a, w') \<Longrightarrow> a = r"
  by (auto simp: transformation_def Let_def then_do_def call_def
           split: if_splits option.splits prod.splits sum.splits)

lemma then_do_transformation:
  "then_do (transformation E n r w) f = (Inr c, w') \<Longrightarrow> \<exists>w1. f r w1 = (Inr c, w')"
  by (auto dest!: then_do_Inr_elim dest: transformation_result)

lemma analyse_image_canvas:
  assumes "analyse_image E L img w = (Inr cv, w')"
  shows "cv = canvas_of L img"
proof -
  from assms show ?thesis
    unfolding analyse_image_def threshold_abs_def Let_def
    apply -
    apply (drule then_do_transformation, erule exE)+
    apply (simp add: canvas_of_def segmentation_of_def Let_def)
    done
qed

lemma analyse_image_quiet:
  "\<not> AutoWrite_on w \<Longrightarrow> analyse_image E L img w = (Inr (canvas_of L img), w)"
  by (simp add: analyse_image_def threshold_abs_def Let_def transformation_off then_do_def
        canvas_of_def segmentation_of_def)

lemma outline_components_mask_all:
  "outline_components L seg ids cv =
     mask_all L cv (map (\<lambda>i. (i, dilate L (border L (inner L (convex_hull L (region_by_identifier L seg i)))),
                pretty_color_from_identifier L i)) ids)"
  by (induction ids arbitrary: cv) (simp_all add: mask_all_def Let_def)

lemma run_fixed_sequence:
  "run_steps L fixed_sequence (Gray img) = Some (Labelled (segmentation_of L img))"
  by (simp add: fixed_sequence_def segmentation_of_def Let_def times_scalar_def astype_float_def
        greater_than_def)

text \<open>
  Claim C1. Whenever \<open>analyse_image\<close> returns a canvas, the label array it outlines is
  the result of the fixed sequence of steps, started on the input image: normalise and
  scale by 255, Gaussian smoothing with sigma 5, absolute threshold 30, binary erosion,
  removal of objects smaller than 5, binary dilation with a disk of radius 2, labelling
  with background 0; the canvas is drawn on the normalised, scaled image. The function
  has no parameter but the image. With the automatic writes off it always returns and
  leaves the world as it was.
\<close>

theorem analyse_image_fixed_sequence:
  "(fst (analyse_image E L img w) = Inr cv \<longrightarrow>
      (\<exists>g seg. run_steps L [NormaliseScale 255] (Gray img) = Some (Gray g)
         \<and> run_steps L fixed_sequence (Gray img) = Some (Labelled seg)
         \<and> cv = outline_components L seg (identifiers L seg) (from_grayscale L g)))
   \<and> (\<not> AutoWrite_on w \<longrightarrow> (\<exists>c. analyse_image E L img w = (Inr c, w)))"
proof (intro conjI impI)
  assume a: "fst (analyse_image E L img w) = Inr cv"
  then have "analyse_image E L img w = (Inr cv, snd (analyse_image E L img w))"
    by (metis prod.collapse)
  then have cv: "cv = canvas_of L img"
    by (rule analyse_image_canvas)
  have g: "run_steps L [NormaliseScale 255] (Gray img) = Some (Gray (times_scalar (normalise L img) 255))"
    by (simp add: times_scalar_def)
  show "\<exists>g seg. run_steps L [NormaliseScale 255] (Gray img) = Some (Gray g)
         \<and> run_steps L fixed_sequence (Gray img) = Some (Labelled seg)
         \<and> cv = outline_components L seg (identifiers L seg) (from_grayscale L g)"
    using g run_fixed_sequence [of L img] cv unfolding canvas_of_def by blast
next
  assume "\<not> AutoWrite_on w"
  then show "\<exists>c. analyse_image E L img w = (Inr c, w)"
    by (simp add: analyse_image_quiet)
qed

theorem analyse_image_fixed_sequence_witness:
  "fst (analyse_image (traced simple_env) example_lib [[0.2, 0.1]] quiet_world) = Inr [[(1, 1, 1), (0, 0, 0)]]
   \<and> (\<exists>g seg. run_steps example_lib [NormaliseScale 255] (Gray [[0.2, 0.1]]) = Some (Gray g)
         \<and> run_steps example_lib fixed_sequence (Gray [[0.2, 0.1]]) = Some (Labelled seg)
         \<and> [[(1, 1, 1), (0, 0, 0)]]
             = outline_components example_lib seg (identifiers example_lib seg)
                 (from_grayscale example_lib g))"
proof -
  have run: "fst (analyse_image (traced simple_env) example_lib [[0.2, 0.1]] quiet_world) = Inr [[(1, 1, 1), (0, 0, 0)]]"
    by code_simp
  with analyse_image_fixed_sequence
         [of "traced simple_env" example_lib "[[0.2, 0.1]]" quiet_world "[[(1, 1, 1), (0, 0, 0)]]"]
  show ?thesis by blast
qed

text \<open>
  Claim C5. The array \<open>threshold_abs\<close> returns has the shape of its input and a pixel
  is set exactly when the input pixel is strictly greater than the cutoff; with the
  automatic writes off it returns and changes nothing. In a run of \<open>analyse_image\<close>
  that returns, \<open>threshold_abs\<close> is called with cutoff 30 on the smoothed image, and its
  result is what erosion, small-object removal, dilation and labelling work on.
\<close>

theorem threshold_abs_pixelwise:
  "(fst (threshold_abs E img cutoff w) = Inr b \<longrightarrow>
      length b = length img
      \<and> (\<forall>r < length img. length (b ! r) = length (img ! r)
            \<and> (\<forall>k < length (img ! r). b ! r ! k = (cutoff < img ! r ! k))))
   \<and> (\<not> AutoWrite_on w \<longrightarrow> (\<exists>b. threshold_abs E img cutoff w = (Inr b, w)))
   \<and> (analyse_image E L image0 w = (Inr cv, w') \<longrightarrow>
        (\<exists>w1 w2 b.
           threshold_abs E
             (smooth_gaussian L (astype_float (times_scalar (normalise L image0) 255)) 5) 30 w1
             = (Inr b, w2)
         \<and> cv = (let seg = connected_components L
                       (dilate_binary L (remove_small_objects L (erode_binary L b) 5) (disk L 2)) 0
                 in outline_components L seg (identifiers L seg)
                      (from_grayscale L (times_scalar (normalise L image0) 255)))))"
proof -
  have pixels: "length b = length img
      \<and> (\<forall>r < length img. length (b ! r) = length (img ! r)
            \<and> (\<forall>k < length (img ! r). b ! r ! k = (cutoff < img ! r ! k)))"
    if "fst (threshold_abs E img cutoff w) = Inr b"
  proof -
    from that have "threshold_abs E img cutoff w = (Inr b, snd (threshold_abs E img cutoff w))"
      by (metis prod.collapse)
    then have b: "b = greater_than img cutoff"
      unfolding threshold_abs_def by (rule transformation_result)
    show ?thesis
      by (simp add: b greater_than_def)
  qed
  have quiet: "\<exists>b. threshold_abs E img cutoff w = (Inr b, w)" if "\<not> AutoWrite_on w"
    using that by (simp add: threshold_abs_def transformation_off)
  have invoked: "\<exists>w1 w2 b.
           threshold_abs E
             (smooth_gaussian L (astype_float (times_scalar (normalise L image0) 255)) 5) 30 w1
             = (Inr b, w2)
         \<and> cv = (let seg = connected_components L
                       (dilate_binary L (remove_small_objects L (erode_binary L b) 5) (disk L 2)) 0
                 in outline_components L seg (identifiers L seg)
                      (from_grayscale L (times_scalar (normalise L image0) 255)))"
    if run: "analyse_image E L image0 w = (Inr cv, w')"
  proof -
  let ?image1 = "times_scalar (normalise L image0) 255"
  let ?image2 = "smooth_gaussian L (astype_float ?image1) 5"
  from run obtain a w1 where
    s1: "transformation E ''smooth_gaussian'' ?image2 w = (Inr a, w1)"
    and r1: "then_do (threshold_abs E a 30 w1)
        (\<lambda>image3 w.
      then_do (transformation E ''erode_binary'' (erode_binary L image3) w)
        (\<lambda>image4 w.
      then_do (transformation E ''remove_small_objects'' (remove_small_objects L image4 5) w)
        (\<lambda>image5 w.
      then_do (transformation E ''dilate_binary'' (dilate_binary L image5 (disk L 2)) w)
        (\<lambda>image6 w.
      then_do (transformation E ''connected_components'' (connected_components L image6 0) w)
        (\<lambda>segmentation w.
      (Inr (outline_components L segmentation (identifiers L segmentation)
              (from_grayscale L ?image1)), w)))))) = (Inr cv, w')"
    unfolding analyse_image_def Let_def by (blast dest: then_do_Inr_elim)
  from s1 have a: "a = ?image2" by (rule transformation_result)
  from r1 obtain b w2 where
    s2: "threshold_abs E a 30 w1 = (Inr b, w2)"
    and r2: "then_do (transformation E ''erode_binary'' (erode_binary L b) w2)
        (\<lambda>image4 w.
      then_do (transformation E ''remove_small_objects'' (remove_small_objects L image4 5) w)
        (\<lambda>image5 w.
      then_do (transformation E ''dilate_binary'' (dilate_binary L image5 (disk L 2)) w)
        (\<lambda>image6 w.
      then_do (transformation E ''connected_components'' (connected_components L image6 0) w)
        (\<lambda>segmentation w.
      (Inr (outline_components L segmentation (identifiers L segmentation)
              (from_grayscale L ?image1)), w))))) = (Inr cv, w')"
    by (blast dest: then_do_Inr_elim)
  from r2 have "cv = (let seg = connected_components L
                       (dilate_binary L (remove_small_objects L (erode_binary L b) 5) (disk L 2)) 0
                 in outline_components L seg (identifiers L seg) (from_grayscale L ?image1))"
    apply -
    apply (drule then_do_transformation, erule exE)+
    apply (simp add: Let_def)
    done
  with s2 a show ?thesis
    by blast
  qed
  from pixels quiet invoked show ?thesis
    by blast
qed

theorem threshold_abs_pixelwise_witness:
  "fst (threshold_abs (traced simple_env) [[51, 25.5], [30, 30.5]] 30 quiet_world) = Inr [[True, False], [False, True]]
   \<and> length [[True, False], [False, True]] = length [[51, 25.5], [30, 30.5 :: real]]
   \<and> [[True, False], [False, True]] ! 1 ! 0 = ((30 :: real) < [[51, 25.5], [30, 30.5]] ! 1 ! 0)"
proof -
  have run: "fst (threshold_abs (traced simple_env) [[51, 25.5], [30, 30.5]] 30 quiet_world)
      = Inr [[True, False], [False, True]]"
    by code_simp
  from threshold_abs_pixelwise
         [of "traced simple_env" "[[51, 25.5], [30, 30.5]]" 30 quiet_world "[[True, False], [False, True]]"] run
  have "length [[True, False], [False, True]] = length [[51, 25.5], [30, 30.5 :: real]]
      \<and> (\<forall>r < length [[51, 25.5], [30, 30.5 :: real]].
            length ([[True, False], [False, True]] ! r) = length ([[51, 25.5], [30, 30.5 :: real]] ! r)
            \<and> (\<forall>k < length ([[51, 25.5], [30, 30.5 :: real]] ! r).
                 [[True, False], [False, True]] ! r ! k = (30 < [[51, 25.5], [30, 30.5 :: real]] ! r ! k)))"
    by blast
  then have "length [[True, False], [False, True]] = length [[51, 25.5], [30, 30.5 :: real]]"
    and "[[True, False], [False, True]] ! 1 ! 0 = ((30 :: real) < [[51, 25.5], [30, 30.5]] ! 1 ! 0)"
    by simp_all
  with run show ?thesis by blast
qed

subsection \<open>The outlines\<close>

lemma filter_eq_distinct:
  "distinct xs \<Longrightarrow> i \<in> set xs \<Longrightarrow> length (filter (\<lambda>j. j = i) xs) = 1"
  by (induction xs) (auto simp: filter_empty_conv)

lemma filter_fst_map:
  "filter (\<lambda>p. fst p = i) (map (\<lambda>j. (j, f j)) xs) = map (\<lambda>j. (j, f j)) (filter (\<lambda>j. j = i) xs)"
  by (induction xs) auto

text \<open>
  Claim C6. The canvas \<open>analyse_image\<close> returns is the grey-scale canvas with the
  outlines of the segmentation masked onto it in the order of the identifiers. There is
  one outline for each position in the identifiers, it is the dilated border of the
  interior of the convex hull of that identifier's region, and its colour is a function
  of the identifier alone. Where the identifiers are distinct (they are a set), every
  component has exactly one outline.
\<close>

theorem analyse_image_outlines:
  "fst (analyse_image E L img w) = Inr cv \<longrightarrow>
     cv = mask_all L (from_grayscale L (times_scalar (normalise L img) 255))
            (component_outlines L (segmentation_of L img))
     \<and> map fst (component_outlines L (segmentation_of L img)) = identifiers L (segmentation_of L img)
     \<and> (\<forall>(i, r, col) \<in> set (component_outlines L (segmentation_of L img)).
           r = dilate L (border L (inner L (convex_hull L
                 (region_by_identifier L (segmentation_of L img) i))))
           \<and> col = pretty_color_from_identifier L i)
     \<and> (distinct (identifiers L (segmentation_of L img)) \<longrightarrow>
          (\<forall>i \<in> set (identifiers L (segmentation_of L img)).
             length (filter (\<lambda>p. fst p = i) (component_outlines L (segmentation_of L img))) = 1))"
proof
  assume "fst (analyse_image E L img w) = Inr cv"
  then have "analyse_image E L img w = (Inr cv, snd (analyse_image E L img w))"
    by (metis prod.collapse)
  then have "cv = canvas_of L img"
    by (rule analyse_image_canvas)
  then have masked: "cv = mask_all L (from_grayscale L (times_scalar (normalise L img) 255))
            (component_outlines L (segmentation_of L img))"
    by (simp add: canvas_of_def outline_components_mask_all component_outlines_def)
  have ids: "map fst (component_outlines L (segmentation_of L img)) = identifiers L (segmentation_of L img)"
    by (simp add: component_outlines_def comp_def)
  have each: "\<forall>(i, r, col) \<in> set (component_outlines L (segmentation_of L img)).
           r = dilate L (border L (inner L (convex_hull L
                 (region_by_identifier L (segmentation_of L img) i))))
           \<and> col = pretty_color_from_identifier L i"
    by (auto simp: component_outlines_def)
  have once: "\<forall>i \<in> set (identifiers L (segmentation_of L img)).
             length (filter (\<lambda>p. fst p = i) (component_outlines L (segmentation_of L img))) = 1"
    if "distinct (identifiers L (segmentation_of L img))"
    using that by (simp add: component_outlines_def filter_fst_map filter_eq_distinct)
  from masked ids each once
  show "cv = mask_all L (from_grayscale L (times_scalar (normalise L img) 255))
            (component_outlines L (segmentation_of L img))
     \<and> map fst (component_outlines L (segmentation_of L img)) = identifiers L (segmentation_of L img)
     \<and> (\<forall>(i, r, col) \<in> set (component_outlines L (segmentation_of L img)).
           r = dilate L (border L (inner L (convex_hull L
                 (region_by_identifier L (segmentation_of L img) i))))
           \<and> col = pretty_color_from_identifier L i)
     \<and> (distinct (identifiers L (segmentation_of L img)) \<longrightarrow>
          (\<forall>i \<in> set (identifiers L (segmentation_of L img)).
             length (filter (\<lambda>p. fst p = i) (component_outlines L (segmentation_of L img))) = 1))"
    by blast
qed

lemma example_outlines:
  "component_outlines example_lib (segmentation_of example_lib [[0.2, 0.1], [0.3, 0]])
     = [(1, [[True, False], [True, False]], (1, 1, 1))]"
  by code_simp

lemma example_identifiers:
  "identifiers example_lib (segmentation_of example_lib [[0.2, 0.1], [0.3, 0]]) = [1]"
  by code_simp

theorem analyse_image_outlines_witness:
  "fst (analyse_image (traced simple_env) example_lib [[0.2, 0.1], [0.3, 0]] quiet_world)
     = Inr [[(1, 1, 1), (0, 0, 0)], [(1, 1, 1), (0, 0, 0)]]
   \<and> distinct (identifiers example_lib (segmentation_of example_lib [[0.2, 0.1], [0.3, 0]]))
   \<and> 1 \<in> set (identifiers example_lib (segmentation_of example_lib [[0.2, 0.1], [0.3, 0]]))
   \<and> length (filter (\<lambda>p. fst p = 1)
        (component_outlines example_lib (segmentation_of example_lib [[0.2, 0.1], [0.3, 0]]))) = 1
   \<and> [[(1, 1, 1), (0, 0, 0)], [(1, 1, 1), (0, 0, 0)]]
       = mask_all example_lib
           (from_grayscale example_lib (times_scalar (normalise example_lib [[0.2, 0.1], [0.3, 0]]) 255))
           (component_outlines example_lib (segmentation_of example_lib [[0.2, 0.1], [0.3, 0]]))"
proof -
  have run: "fst (analyse_image (traced simple_env) example_lib [[0.2, 0.1], [0.3, 0]] quiet_world)
     = Inr [[(1, 1, 1), (0, 0, 0)], [(1, 1, 1), (0, 0, 0)]]"
    by code_simp
  have d: "distinct (identifiers example_lib (segmentation_of example_lib [[0.2, 0.1], [0.3, 0]]))"
    and m: "1 \<in> set (identifiers example_lib (segmentation_of example_lib [[0.2, 0.1], [0.3, 0]]))"
    unfolding example_identifiers by simp_all
  from analyse_image_outlines
         [of "traced simple_env" example_lib "[[0.2, 0.1], [0.3, 0]]" quiet_world
             "[[(1, 1, 1), (0, 0, 0)], [(1, 1, 1), (0, 0, 0)]]"] run d m
  show ?thesis by blast
qed

section \<open>File names\<close>

subsection \<open>The three-digit format is injective\<close>

lemma digit_char_value: "d < 10 \<Longrightarrow> of_char (digit_char d) = 48 + d"
  by (simp add: digit_char_def)

lemma digits_value_snoc: "digits_value (s @ [c]) = 10 * digits_value s + (of_char c - 48)"
  by (simp add: digits_value_def)

lemma digits_value_decimal: "digits_value (decimal n) = n"
proof (induction n rule: decimal.induct)
  case (1 n)
  show ?case
  proof (cases "n < 10")
    case True
    then show ?thesis
      by (subst decimal.simps) (simp add: digits_value_def digit_char_value)
  next
    case False
    with 1 have "digits_value (decimal (n div 10)) = n div 10" by simp
    with False show ?thesis
      by (subst decimal.simps) (simp add: digits_value_snoc digit_char_value)
  qed
qed

lemma digits_value_zeros: "digits_value (replicate k CHR ''0'' @ s) = digits_value s"
proof -
  have "foldl (\<lambda>a c. 10 * a + (of_char c - 48)) 0 (replicate k CHR ''0'') = (0::nat)"
    by (induction k) simp_all
  then show ?thesis by (simp add: digits_value_def)
qed

lemma decimal_not_Nil: "decimal n \<noteq> []"
  by (subst decimal.simps) simp

lemma digit_char_not_minus:
  assumes "d < 10"
  shows "digit_char d \<noteq> CHR ''-''" and "digit_char d \<noteq> CHR ''s''"
proof -
  have v: "of_char (digit_char d) = 48 + d" using assms by (rule digit_char_value)
  show "digit_char d \<noteq> CHR ''-''"
  proof
    assume "digit_char d = CHR ''-''"
    then have "of_char (digit_char d) = (45::nat)" by simp
    with v show False by simp
  qed
  show "digit_char d \<noteq> CHR ''s''"
  proof
    assume "digit_char d = CHR ''s''"
    then have "of_char (digit_char d) = (115::nat)" by simp
    with v assms show False by simp
  qed
qed

lemma decimal_digits: "c \<in> set (decimal n) \<Longrightarrow> c \<noteq> CHR ''-'' \<and> c \<noteq> CHR ''s''"
proof (induction n rule: decimal.induct)
  case (1 n)
  show ?case
  proof (cases "n < 10")
    case True
    with 1(2) have "c = digit_char n" by (subst (asm) decimal.simps) simp
    with True show ?thesis using digit_char_not_minus by simp
  next
    case False
    with 1(2) have "c \<in> set (decimal (n div 10)) \<or> c = digit_char (n mod 10)"
      by (subst (asm) decimal.simps) auto
    then show ?thesis
    proof
      assume "c \<in> set (decimal (n div 10))"
      with 1(1) False show ?thesis by simp
    next
      assume "c = digit_char (n mod 10)"
      then show ?thesis using digit_char_not_minus [of "n mod 10"] by simp
    qed
  qed
qed

lemma hd_padded_decimal:
  "hd (replicate k CHR ''0'' @ decimal n) \<noteq> CHR ''-'' \<and> hd (replicate k CHR ''0'' @ decimal n) \<noteq> CHR ''s''"
proof (cases k)
  case 0
  have "hd (decimal n) \<in> set (decimal n)" using decimal_not_Nil by simp
  with 0 show ?thesis using decimal_digits by simp
next
  case (Suc j)
  then show ?thesis by simp
qed

lemma format_03d_inj: "format_03d a = format_03d b \<Longrightarrow> a = b"
proof -
  assume eq: "format_03d a = format_03d b"
  have neg: "format_03d x = CHR ''-'' # replicate (2 - length (decimal (nat (- x)))) CHR ''0'' @ decimal (nat (- x))"
    if "x < 0" for x using that by (simp add: format_03d_def)
  have pos: "format_03d x = replicate (3 - length (decimal (nat x))) CHR ''0'' @ decimal (nat x)"
    if "\<not> x < 0" for x using that by (simp add: format_03d_def)
  have hd_pos: "hd (format_03d x) \<noteq> CHR ''-''" if "\<not> x < 0" for x
    using that hd_padded_decimal by (simp add: pos)
  have hd_neg: "hd (format_03d x) = CHR ''-''" if "x < 0" for x
    using that by (simp add: neg)
  have val_pos: "digits_value (format_03d x) = nat x" if "\<not> x < 0" for x
    using that by (simp add: pos digits_value_zeros digits_value_decimal)
  have val_neg: "digits_value (tl (format_03d x)) = nat (- x)" if "x < 0" for x
    using that by (simp add: neg digits_value_zeros digits_value_decimal)
  show "a = b"
  proof (cases "a < 0")
    case True
    then have "b < 0" using eq hd_neg hd_pos by metis
    with True val_neg eq have "nat (- a) = nat (- b)" by metis
    with True \<open>b < 0\<close> show ?thesis by simp
  next
    case False
    then have "\<not> b < 0" using eq hd_neg hd_pos by metis
    with False val_pos eq have "nat a = nat b" by metis
    with False \<open>\<not> b < 0\<close> show ?thesis by simp
  qed
qed

lemma format_03d_hd: "format_03d (int n) \<noteq> [] \<and> hd (format_03d (int n)) \<noteq> CHR ''s''"
  using hd_padded_decimal decimal_not_Nil by (simp add: format_03d_def)

lemma length_decimal:
  "length (decimal n) = (if n < 10 then 1 else Suc (length (decimal (n div 10))))"
  by (subst decimal.simps) simp

lemma format_03d_three: "0 \<le> s \<Longrightarrow> s < 1000 \<Longrightarrow> length (format_03d s) = 3"
proof -
  assume s: "0 \<le> s" "s < 1000"
  then have n: "nat s < 1000" by simp
  have "length (decimal n) \<le> 3" if "n < 1000" for n
  proof -
    from that have "n div 10 div 10 < 10" by simp
    then show ?thesis
      by (simp add: length_decimal [of n] length_decimal [of "n div 10"]
            length_decimal [of "n div 10 div 10"])
  qed
  with n have "length (decimal (nat s)) \<le> 3" by blast
  with s show ?thesis by (simp add: format_03d_def)
qed

subsection \<open>Annotation files and automatic names never coincide\<close>

lemma digit_char_not_slash:
  assumes "d < 10"
  shows "digit_char d \<noteq> CHR ''/''"
proof
  assume "digit_char d = CHR ''/''"
  then have "of_char (digit_char d) = (47::nat)" by simp
  with digit_char_value [OF assms] show False by simp
qed

lemma decimal_no_slash: "c \<in> set (decimal n) \<Longrightarrow> c \<noteq> CHR ''/''"
proof (induction n rule: decimal.induct)
  case (1 n)
  show ?case
  proof (cases "n < 10")
    case True
    with 1(2) have "c = digit_char n" by (subst (asm) decimal.simps) simp
    with True show ?thesis using digit_char_not_slash by simp
  next
    case False
    with 1(2) have "c \<in> set (decimal (n div 10)) \<or> c = digit_char (n mod 10)"
      by (subst (asm) decimal.simps) auto
    then show ?thesis
    proof
      assume "c \<in> set (decimal (n div 10))"
      with 1(1) False show ?thesis by simp
    next
      assume "c = digit_char (n mod 10)"
      then show ?thesis using digit_char_not_slash [of "n mod 10"] by simp
    qed
  qed
qed

lemma format_03d_slash: "hd (format_03d (int n)) \<noteq> CHR ''/''"
proof (cases "3 - length (decimal n)")
  case 0
  have "hd (decimal n) \<in> set (decimal n)" using decimal_not_Nil by simp
  with 0 show ?thesis using decimal_no_slash by (simp add: format_03d_def)
next
  case (Suc j)
  then show ?thesis by (simp add: format_03d_def)
qed

lemma os_path_join_relative:
  "b \<noteq> [] \<Longrightarrow> hd b \<noteq> CHR ''/'' \<Longrightarrow>
   os_path_join a b = (if a = [] \<or> last a = CHR ''/'' then a @ b else a @ ''/'' @ b)"
  by (simp add: os_path_join_def)

lemma os_path_join_inj:
  assumes "x \<noteq> []" "hd x \<noteq> CHR ''/''" "y \<noteq> []" "hd y \<noteq> CHR ''/''"
    and "os_path_join a x = os_path_join a y"
  shows "x = y"
  using assms by (simp add: os_path_join_relative split: if_splits)

lemma annotation_file_name_inj:
  "annotation_file_name out a = annotation_file_name out b \<Longrightarrow> a = b"
proof -
  assume "annotation_file_name out a = annotation_file_name out b"
  then have "''series_'' @ format_03d a @ ''_annotation.png''
      = ''series_'' @ format_03d b @ ''_annotation.png''"
    unfolding annotation_file_name_def by (rule os_path_join_inj [rotated 4]) simp_all
  then have "format_03d a = format_03d b" by simp
  then show "a = b" by (rule format_03d_inj)
qed

lemma annotation_not_intermediate:
  "\<not> is_intermediate (Some out) (annotation_file_name out s)"
proof
  assume "is_intermediate (Some out) (annotation_file_name out s)"
  then obtain n f where eq: "annotation_file_name out s = AutoName_name (Some out) n f"
    by (auto simp: is_intermediate_def)
  let ?x = "''series_'' @ format_03d s @ ''_annotation.png''"
  let ?y = "format_03d (int n) @ ''_'' @ f @ ''.png''"
  have y: "?y \<noteq> []" "hd ?y \<noteq> CHR ''s''" "hd ?y \<noteq> CHR ''/''"
    using format_03d_hd [of n] format_03d_slash [of n] by (simp_all add: hd_append)
  from eq have "os_path_join out ?x = os_path_join out ?y"
    by (simp add: annotation_file_name_def AutoName_name_def)
  then have "?x = ?y"
    by (rule os_path_join_inj [rotated 4]) (use y in simp_all)
  then have "hd ?x = hd ?y" by (rule arg_cong)
  with y show False by simp
qed

end
